theory Spec2Isabelle
  imports Main
begin

section \<open>Browser values\<close>

text \<open>
  A \<open>File\<close> of the browser as far as the components read it: its \<open>name\<close>, its declared
  MIME \<open>type\<close> and its \<open>size\<close> in bytes. A \<open>Blob\<close> has no name.
\<close>

record File =
  file_name :: string
  file_type :: string
  file_size :: nat

record Blob =
  blob_type :: string
  blob_size :: nat

section \<open>VideoUpload.tsx\<close>

text \<open>The component state of \<open>VideoUpload\<close> (its three \<open>useState\<close> cells).\<close>

record upload_state =
  dragActive :: bool
  error :: "string option"
  selectedFile :: "File option"

definition maxSize :: nat where
  "maxSize = 100 * 1024 * 1024"

definition validTypes :: "string list" where
  "validTypes = [''video/mp4'', ''video/webm'', ''video/quicktime'', ''video/x-msvideo'']"

definition formatError :: string where
  "formatError = ''Please upload a valid video file (MP4, WebM, MOV, or AVI)''"

definition sizeError :: string where
  "sizeError = ''Video file must be less than 100MB''"

text \<open>
  The regular expression \<open>/\.(mp4|webm|mov|avi)$/i\<close>: the name ends in one of the four
  extensions, letters compared without regard to case. Without the \<open>u\<close> flag only the
  ASCII letters fold onto the letters of the pattern.
\<close>

definition toLowerAscii :: "char \<Rightarrow> char" where
  "toLowerAscii c =
     (case map_of (zip ''ABCDEFGHIJKLMNOPQRSTUVWXYZ'' ''abcdefghijklmnopqrstuvwxyz'') c of
        Some l \<Rightarrow> l
      | None \<Rightarrow> c)"

definition endsWith :: "string \<Rightarrow> string \<Rightarrow> bool" where
  "endsWith s suf =
     (length suf \<le> length s \<and> drop (length s - length suf) s = suf)"

definition matchesVideoExtension :: "string \<Rightarrow> bool" where
  "matchesVideoExtension nm =
     (let l = map toLowerAscii nm
      in endsWith l ''.mp4'' \<or> endsWith l ''.webm'' \<or> endsWith l ''.mov'' \<or> endsWith l ''.avi'')"

text \<open>
  \<open>validateFile\<close> returns the boolean and writes the \<open>error\<close> cell; the model returns both.
\<close>

definition validateFile :: "File \<Rightarrow> upload_state \<Rightarrow> bool \<times> upload_state" where
  "validateFile f st =
     (if file_type f \<notin> set validTypes \<and> \<not> matchesVideoExtension (file_name f)
      then (False, st\<lparr>error := Some formatError\<rparr>)
      else if file_size f > maxSize
      then (False, st\<lparr>error := Some sizeError\<rparr>)
      else (True, st\<lparr>error := None\<rparr>))"

text \<open>
  \<open>handleFile\<close>: an accepted file is stored and handed to the parent's \<open>onFileSelect\<close>;
  the second component is the list of files emitted to the parent.
\<close>

definition handleFile :: "File \<Rightarrow> upload_state \<Rightarrow> upload_state \<times> File list" where
  "handleFile f st =
     (case validateFile f st of
        (True, st') \<Rightarrow> (st'\<lparr>selectedFile := Some f\<rparr>, [f])
      | (False, st') \<Rightarrow> (st', []))"

definition upload_initial :: upload_state where
  "upload_initial = \<lparr>dragActive = False, error = None, selectedFile = None\<rparr>"

section \<open>RecordingPage\<close>

text \<open>The authenticated user of \<open>useAuth\<close>: its id and its optional email.\<close>

record User =
  user_id :: string
  user_email :: "string option"

datatype mode = ModeSelect | ModeRecord | ModeUpload

text \<open>The six \<open>useState\<close> cells of \<open>RecordingPage\<close>, with their initial values.\<close>

record session =
  mode :: mode
  videoBlob :: "Blob option"
  videoFile :: "File option"
  uploading :: bool
  uploadComplete :: bool
  recordingId :: "string option"

definition initial :: session where
  "initial = \<lparr>mode = ModeSelect, videoBlob = None, videoFile = None, uploading = False,
     uploadComplete = False, recordingId = None\<rparr>"

text \<open>
  A thrown value is an instance of \<open>Error\<close> with its message, or any other value, such
  as a plain object, with the message it carries (which the handler does not read).
\<close>

datatype thrown = ErrorInstance string | OtherValue string

text \<open>
  A plain object is the list of its properties in insertion order. The values of the
  heart-rate rows and of the prediction are opaque to the page.
\<close>

type_synonym 'v jsobject = "(string \<times> 'v) list"

record Recording =
  rec_id :: string

text \<open>
  \<open>HealthMonitoringAPI\<close> is imported from \<open>../services/api\<close>; its functions are
  parameters of the model. Each returns normally (\<open>Inr\<close>) or throws (\<open>Inl\<close>).
\<close>

record 'v api =
  ensureUserProfile :: "string \<Rightarrow> string \<Rightarrow> thrown + unit"
  createRecording :: "string \<Rightarrow> string \<Rightarrow> nat \<Rightarrow> thrown + Recording"
  simulateHeartRateData :: "string \<Rightarrow> nat \<Rightarrow> string \<Rightarrow> thrown + 'v jsobject list"
  simulateRiskPrediction :: "string \<Rightarrow> 'v jsobject list \<Rightarrow> string \<Rightarrow> thrown + 'v jsobject"
  saveHeartRateData :: "'v jsobject list \<Rightarrow> thrown + unit"
  saveRiskPrediction :: "'v jsobject \<Rightarrow> thrown + unit"

datatype page = PageDashboard | PageRecord | PageAnalysis

type_synonym navigation = "page \<times> string option"

text \<open>
  What the handler does to the outside, in the order it does it: the calls of the API
  with their arguments, \<open>console.error\<close>, \<open>alert\<close>, and \<open>setTimeout\<close> with the
  navigation its callback requests and the delay in milliseconds.
\<close>

datatype 'v effect =
    Call_ensureUserProfile string string
  | Call_createRecording string string nat
  | Call_simulateHeartRateData string nat string
  | Call_simulateRiskPrediction string "'v jsobject list" string
  | Call_saveHeartRateData "'v jsobject list"
  | Call_saveRiskPrediction "'v jsobject"
  | ConsoleError string thrown
  | Alert string
  | SetTimeout navigation nat

text \<open>\<open>x || d\<close> on an optional string: \<open>undefined\<close> and the empty string are falsy.\<close>

definition orElse :: "string option \<Rightarrow> string \<Rightarrow> string" where
  "orElse x d = (case x of None \<Rightarrow> d | Some v \<Rightarrow> if v = [] then d else v)"

text \<open>The decimal digits of a number, as a template literal renders \<open>Date.now()\<close>.\<close>

definition digitChar :: "nat \<Rightarrow> char" where
  "digitChar d = ''0123456789'' ! d"

function string_of_nat :: "nat \<Rightarrow> string" where
  "string_of_nat n =
     (if n < 10 then [digitChar n] else string_of_nat (n div 10) @ [digitChar (n mod 10)])"
  by pat_completeness auto
termination
  by (relation "measure id") auto

declare string_of_nat.simps [simp del]

text \<open>The rest pattern \<open>({ id, created_at, ...rest }) => rest\<close>.\<close>

definition stripServerFields :: "'v jsobject \<Rightarrow> 'v jsobject" where
  "stripServerFields obj = filter (\<lambda>(k, v). k \<noteq> ''id'' \<and> k \<noteq> ''created_at'') obj"

definition handleRecordingComplete :: "Blob \<Rightarrow> session \<Rightarrow> session" where
  "handleRecordingComplete b s = s\<lparr>videoBlob := Some b\<rparr>"

definition handleFileSelect :: "File \<Rightarrow> session \<Rightarrow> session" where
  "handleFileSelect f s = s\<lparr>videoFile := Some f\<rparr>"

text \<open>
  The body of the \<open>try\<close> block of \<open>handleProcess\<close>, for the user \<open>u\<close> and the reading
  \<open>now\<close> of \<open>Date.now()\<close>: the session it leaves, the effects in order, and the value
  thrown if a call threw.
\<close>

definition tryBlock ::
  "'v api \<Rightarrow> nat \<Rightarrow> User \<Rightarrow> session \<Rightarrow> session \<times> 'v effect list \<times> thrown option" where
  "tryBlock api now u s =
     (let s1 = s\<lparr>uploading := True\<rparr>;
          email = orElse (user_email u) [];
          c1 = Call_ensureUserProfile (user_id u) email
      in case ensureUserProfile api (user_id u) email of
           Inl err \<Rightarrow> (s1, [c1], Some err)
         | Inr _ \<Rightarrow>
     (let fileName = orElse (map_option file_name (videoFile s))
                       (''recording-'' @ string_of_nat now @ ''.webm'');
          duration = (if videoFile s \<noteq> None then 60 else 60);
          c2 = Call_createRecording (user_id u) fileName duration
      in case createRecording api (user_id u) fileName duration of
           Inl err \<Rightarrow> (s1, [c1, c2], Some err)
         | Inr recording \<Rightarrow>
     (let c3 = Call_simulateHeartRateData (rec_id recording) duration fileName
      in case simulateHeartRateData api (rec_id recording) duration fileName of
           Inl err \<Rightarrow> (s1, [c1, c2, c3], Some err)
         | Inr heartRateData \<Rightarrow>
     (let c4 = Call_simulateRiskPrediction (rec_id recording) heartRateData fileName
      in case simulateRiskPrediction api (rec_id recording) heartRateData fileName of
           Inl err \<Rightarrow> (s1, [c1, c2, c3, c4], Some err)
         | Inr riskPrediction \<Rightarrow>
     (let heartRateDataToSave = map stripServerFields heartRateData;
          c5 = Call_saveHeartRateData heartRateDataToSave
      in case saveHeartRateData api heartRateDataToSave of
           Inl err \<Rightarrow> (s1, [c1, c2, c3, c4, c5], Some err)
         | Inr _ \<Rightarrow>
     (let riskToSave = stripServerFields riskPrediction;
          c6 = Call_saveRiskPrediction riskToSave
      in case saveRiskPrediction api riskToSave of
           Inl err \<Rightarrow> (s1, [c1, c2, c3, c4, c5, c6], Some err)
         | Inr _ \<Rightarrow>
             (s1\<lparr>recordingId := Some (rec_id recording), uploadComplete := True\<rparr>,
              [c1, c2, c3, c4, c5, c6,
               SetTimeout (PageAnalysis, Some (rec_id recording)) 2000],
              None)))))))"

text \<open>
  \<open>handleProcess\<close>: the two early returns, the \<open>try\<close> block, the \<open>catch\<close> clause
  (\<open>console.error\<close>, then \<open>alert\<close>) and the \<open>finally\<close> clause.
\<close>

definition handleProcess ::
  "'v api \<Rightarrow> nat \<Rightarrow> User option \<Rightarrow> session \<Rightarrow> session \<times> 'v effect list" where
  "handleProcess api now user s =
     (case user of
        None \<Rightarrow> (s, [])
      | Some u \<Rightarrow>
          if videoBlob s = None \<and> videoFile s = None then (s, [])
          else
            (case tryBlock api now u s of
               (s', effs, None) \<Rightarrow> (s'\<lparr>uploading := False\<rparr>, effs)
             | (s', effs, Some err) \<Rightarrow>
                 (s'\<lparr>uploading := False\<rparr>,
                  effs @
                  [ConsoleError ''Processing failed:'' err,
                   Alert (''Failed to process video: '' @
                     (case err of
                        ErrorInstance m \<Rightarrow> m
                      | OtherValue _ \<Rightarrow> ''Unknown error''))])))"

definition handleReset :: "session \<Rightarrow> session" where
  "handleReset s =
     s\<lparr>videoBlob := None, videoFile := None, uploadComplete := False, mode := ModeSelect\<rparr>"

text \<open>
  The two review panels of the page, one shown for a recorded blob and one for an
  uploaded file, each while \<open>uploadComplete\<close> is false. Each holds a button wired to
  \<open>handleReset\<close> and a button wired to \<open>handleProcess\<close>, both with
  \<open>disabled={uploading}\<close>; a click on a button that is not rendered or is disabled
  runs no handler.
\<close>

datatype panel = BlobPanel | FilePanel

definition panelShown :: "panel \<Rightarrow> session \<Rightarrow> bool" where
  "panelShown p s =
     (case p of
        BlobPanel \<Rightarrow> videoBlob s \<noteq> None \<and> \<not> uploadComplete s
      | FilePanel \<Rightarrow> videoFile s \<noteq> None \<and> \<not> uploadComplete s)"

definition clickAnalyze ::
  "panel \<Rightarrow> 'v api \<Rightarrow> nat \<Rightarrow> User option \<Rightarrow> session \<Rightarrow> session \<times> 'v effect list" where
  "clickAnalyze p api now user s =
     (if panelShown p s \<and> \<not> uploading s then handleProcess api now user s else (s, []))"

definition clickReset :: "panel \<Rightarrow> session \<Rightarrow> session" where
  "clickReset p s = (if panelShown p s \<and> \<not> uploading s then handleReset s else s)"

section \<open>Observations on a run\<close>

datatype step =
    EnsureProfile | CreateRecording | GenerateSeries | GeneratePrediction
  | PersistSeries | PersistPrediction

definition pipelineOrder :: "step list" where
  "pipelineOrder =
     [EnsureProfile, CreateRecording, GenerateSeries, GeneratePrediction,
      PersistSeries, PersistPrediction]"

fun stepOf :: "'v effect \<Rightarrow> step option" where
  "stepOf (Call_ensureUserProfile _ _) = Some EnsureProfile"
| "stepOf (Call_createRecording _ _ _) = Some CreateRecording"
| "stepOf (Call_simulateHeartRateData _ _ _) = Some GenerateSeries"
| "stepOf (Call_simulateRiskPrediction _ _ _) = Some GeneratePrediction"
| "stepOf (Call_saveHeartRateData _) = Some PersistSeries"
| "stepOf (Call_saveRiskPrediction _) = Some PersistPrediction"
| "stepOf (ConsoleError _ _) = None"
| "stepOf (Alert _) = None"
| "stepOf (SetTimeout _ _) = None"

text \<open>The pipeline steps of a run, in the order they were called.\<close>

definition apiCalls :: "'v effect list \<Rightarrow> 'v effect list" where
  "apiCalls effs = filter (\<lambda>e. stepOf e \<noteq> None) effs"

text \<open>What a call of the trace did under the given API: the value it threw, if any.\<close>

fun throws :: "'v api \<Rightarrow> 'v effect \<Rightarrow> thrown option" where
  "throws api (Call_ensureUserProfile a b) =
     (case ensureUserProfile api a b of Inl e \<Rightarrow> Some e | Inr _ \<Rightarrow> None)"
| "throws api (Call_createRecording a b c) =
     (case createRecording api a b c of Inl e \<Rightarrow> Some e | Inr _ \<Rightarrow> None)"
| "throws api (Call_simulateHeartRateData a b c) =
     (case simulateHeartRateData api a b c of Inl e \<Rightarrow> Some e | Inr _ \<Rightarrow> None)"
| "throws api (Call_simulateRiskPrediction a b c) =
     (case simulateRiskPrediction api a b c of Inl e \<Rightarrow> Some e | Inr _ \<Rightarrow> None)"
| "throws api (Call_saveHeartRateData a) =
     (case saveHeartRateData api a of Inl e \<Rightarrow> Some e | Inr _ \<Rightarrow> None)"
| "throws api (Call_saveRiskPrediction a) =
     (case saveRiskPrediction api a of Inl e \<Rightarrow> Some e | Inr _ \<Rightarrow> None)"
| "throws api (ConsoleError _ _) = None"
| "throws api (Alert _) = None"
| "throws api (SetTimeout _ _) = None"

fun alerts :: "'v effect list \<Rightarrow> string list" where
  "alerts [] = []"
| "alerts (Alert m # es) = m # alerts es"
| "alerts (_ # es) = alerts es"

fun timers :: "'v effect list \<Rightarrow> (nat \<times> navigation) list" where
  "timers [] = []"
| "timers (SetTimeout nav d # es) = (d, nav) # timers es"
| "timers (_ # es) = timers es"

section \<open>The timer queue of the browser\<close>

text \<open>
  The pending timers with the milliseconds left and the navigation each callback
  requests, the navigations requested from \<open>onNavigate\<close> so far, and whether the page
  is mounted. The page keeps no handle of its timer and registers no cleanup, so its
  teardown changes nothing but the flag; a timer whose delay has elapsed runs its
  callback.
\<close>

record runtime =
  pending :: "(nat \<times> navigation) list"
  navigated :: "navigation list"
  mounted :: bool

definition mountedPage :: "'v effect list \<Rightarrow> runtime" where
  "mountedPage effs = \<lparr>pending = timers effs, navigated = [], mounted = True\<rparr>"

definition unmount :: "runtime \<Rightarrow> runtime" where
  "unmount rt = rt\<lparr>mounted := False\<rparr>"

definition elapse :: "nat \<Rightarrow> runtime \<Rightarrow> runtime" where
  "elapse ms rt =
     rt\<lparr>pending := map (\<lambda>(d, nav). (d - ms, nav)) (filter (\<lambda>(d, nav). ms < d) (pending rt)),
        navigated := navigated rt @ map snd (filter (\<lambda>(d, nav). d \<le> ms) (pending rt))\<rparr>"

section \<open>The states of the page\<close>

text \<open>
  The sessions the page can be in, from its mounting on. The mode buttons are rendered
  in the mode \<open>select\<close>; the recorder and the uploader hand their artifact to
  \<open>handleRecordingComplete\<close> and \<open>handleFileSelect\<close> (at any time, which allows more
  than the page renders them for); the reset buttons run \<open>clickReset\<close>. A click on an
  enabled button wired to \<open>handleProcess\<close> sets \<open>uploading\<close> and suspends at the first
  \<open>await\<close>; the run later settles on the session of that moment, either by a throw
  (\<open>uploading\<close> cleared) or by reaching the end of the \<open>try\<close> block (\<open>recordingId\<close> and
  \<open>uploadComplete\<close> written, \<open>uploading\<close> cleared).
\<close>

inductive reachable :: "session \<Rightarrow> bool" where
  page_mounted: "reachable initial"
| choose_record: "reachable s \<Longrightarrow> mode s = ModeSelect \<Longrightarrow> reachable (s\<lparr>mode := ModeRecord\<rparr>)"
| choose_upload: "reachable s \<Longrightarrow> mode s = ModeSelect \<Longrightarrow> reachable (s\<lparr>mode := ModeUpload\<rparr>)"
| recording_complete: "reachable s \<Longrightarrow> reachable (handleRecordingComplete b s)"
| file_select: "reachable s \<Longrightarrow> reachable (handleFileSelect f s)"
| reset_click: "reachable s \<Longrightarrow> reachable (clickReset p s)"
| process_started:
    "reachable s \<Longrightarrow> panelShown p s \<Longrightarrow> \<not> uploading s \<Longrightarrow> reachable (s\<lparr>uploading := True\<rparr>)"
| process_failed: "reachable s \<Longrightarrow> uploading s \<Longrightarrow> reachable (s\<lparr>uploading := False\<rparr>)"
| process_succeeded:
    "reachable s \<Longrightarrow> uploading s \<Longrightarrow>
     reachable (s\<lparr>recordingId := Some rid, uploadComplete := True, uploading := False\<rparr>)"

section \<open>A concrete run\<close>

text \<open>
  The scenario of the specification: the user uploads \<open>clip.mp4\<close> of 50 MB, every call of
  the API returns, and the recording created has the id \<open>rec-1\<close>. In the second API the
  creation of the recording throws an \<open>Error\<close>.
\<close>

definition demoUser :: User where
  "demoUser = \<lparr>user_id = ''user-1'', user_email = Some ''a@b.c''\<rparr>"

definition demoFile :: File where
  "demoFile = \<lparr>file_name = ''clip.mp4'', file_type = ''video/mp4'', file_size = 50 * 1024 * 1024\<rparr>"

definition demoSession :: session where
  "demoSession = \<lparr>mode = ModeUpload, videoBlob = None, videoFile = Some demoFile,
     uploading = False, uploadComplete = False, recordingId = None\<rparr>"

text \<open>A session of the recording mode, holding a recorded blob and no file.\<close>

definition recordedSession :: session where
  "recordedSession = \<lparr>mode = ModeRecord,
     videoBlob = Some \<lparr>blob_type = ''video/webm'', blob_size = 1024\<rparr>, videoFile = None,
     uploading = False, uploadComplete = False, recordingId = None\<rparr>"

definition demoRows :: "nat jsobject list" where
  "demoRows =
     [[(''id'', 1), (''recording_id'', 7), (''heart_rate'', 72), (''created_at'', 1000)],
      [(''id'', 2), (''recording_id'', 7), (''heart_rate'', 75), (''created_at'', 1000)]]"

definition demoPrediction :: "nat jsobject" where
  "demoPrediction = [(''id'', 9), (''recording_id'', 7), (''risk_score'', 12), (''created_at'', 1000)]"

definition demoApi :: "nat api" where
  "demoApi =
     \<lparr>ensureUserProfile = (\<lambda>uid email. Inr ()),
      createRecording = (\<lambda>uid fileName duration. Inr \<lparr>rec_id = ''rec-1''\<rparr>),
      simulateHeartRateData = (\<lambda>rid duration fileName. Inr demoRows),
      simulateRiskPrediction = (\<lambda>rid rows fileName. Inr demoPrediction),
      saveHeartRateData = (\<lambda>rows. Inr ()),
      saveRiskPrediction = (\<lambda>row. Inr ())\<rparr>"

definition failingApi :: "nat api" where
  "failingApi = demoApi\<lparr>createRecording := (\<lambda>uid fileName duration. Inl (ErrorInstance ''insert failed''))\<rparr>"

text \<open>An API whose creation of the recording throws a plain object, not an \<open>Error\<close>.\<close>

definition rejectingApi :: "nat api" where
  "rejectingApi =
     demoApi\<lparr>createRecording := (\<lambda>uid fileName duration. Inl (OtherValue ''duplicate key''))\<rparr>"

definition demoTrace :: "nat effect list" where
  "demoTrace =
     [Call_ensureUserProfile ''user-1'' ''a@b.c'',
      Call_createRecording ''user-1'' ''clip.mp4'' 60,
      Call_simulateHeartRateData ''rec-1'' 60 ''clip.mp4'',
      Call_simulateRiskPrediction ''rec-1'' demoRows ''clip.mp4'',
      Call_saveHeartRateData
        [[(''recording_id'', 7), (''heart_rate'', 72)], [(''recording_id'', 7), (''heart_rate'', 75)]],
      Call_saveRiskPrediction [(''recording_id'', 7), (''risk_score'', 12)],
      SetTimeout (PageAnalysis, Some ''rec-1'') 2000]"

definition demoComplete :: session where
  "demoComplete = demoSession\<lparr>uploadComplete := True, recordingId := Some ''rec-1''\<rparr>"

definition failingTrace :: "nat effect list" where
  "failingTrace =
     [Call_ensureUserProfile ''user-1'' ''a@b.c'',
      Call_createRecording ''user-1'' ''clip.mp4'' 60,
      ConsoleError ''Processing failed:'' (ErrorInstance ''insert failed''),
      Alert ''Failed to process video: insert failed'']"

section \<open>Validation\<close>

lemma formatError_neq_sizeError: "formatError \<noteq> sizeError"
  by (simp add: formatError_def sizeError_def)

lemma toLowerAscii_letters:
  "toLowerAscii c = CHR ''.'' \<longleftrightarrow> c \<in> {CHR ''.''}"
  "toLowerAscii c = CHR ''4'' \<longleftrightarrow> c \<in> {CHR ''4''}"
  "toLowerAscii c = CHR ''m'' \<longleftrightarrow> c \<in> {CHR ''m'', CHR ''M''}"
  "toLowerAscii c = CHR ''p'' \<longleftrightarrow> c \<in> {CHR ''p'', CHR ''P''}"
  "toLowerAscii c = CHR ''w'' \<longleftrightarrow> c \<in> {CHR ''w'', CHR ''W''}"
  "toLowerAscii c = CHR ''e'' \<longleftrightarrow> c \<in> {CHR ''e'', CHR ''E''}"
  "toLowerAscii c = CHR ''b'' \<longleftrightarrow> c \<in> {CHR ''b'', CHR ''B''}"
  "toLowerAscii c = CHR ''o'' \<longleftrightarrow> c \<in> {CHR ''o'', CHR ''O''}"
  "toLowerAscii c = CHR ''v'' \<longleftrightarrow> c \<in> {CHR ''v'', CHR ''V''}"
  "toLowerAscii c = CHR ''a'' \<longleftrightarrow> c \<in> {CHR ''a'', CHR ''A''}"
  "toLowerAscii c = CHR ''i'' \<longleftrightarrow> c \<in> {CHR ''i'', CHR ''I''}"
  by (auto simp: toLowerAscii_def split: if_splits)

lemma endsWith_iff: "endsWith s suf \<longleftrightarrow> (\<exists>stem. s = stem @ suf)"
proof
  assume "endsWith s suf"
  then have "s = take (length s - length suf) s @ suf"
    by (metis append_take_drop_id endsWith_def)
  then show "\<exists>stem. s = stem @ suf" ..
next
  assume "\<exists>stem. s = stem @ suf"
  then show "endsWith s suf" by (auto simp: endsWith_def)
qed

lemma endsWith_map_iff:
  "endsWith (map g nm) suf \<longleftrightarrow> (\<exists>stem ext. nm = stem @ ext \<and> map g ext = suf)"
  by (auto simp: endsWith_iff map_eq_append_conv)

lemma lowered_extension_iff:
  "map toLowerAscii ext = ''.mp4'' \<longleftrightarrow> 
     list_all2 (\<in>) ext [{CHR ''.''}, {CHR ''m'', CHR ''M''}, {CHR ''p'', CHR ''P''}, {CHR ''4''}]"
  "map toLowerAscii ext = ''.webm'' \<longleftrightarrow> 
     list_all2 (\<in>) ext [{CHR ''.''}, {CHR ''w'', CHR ''W''}, {CHR ''e'', CHR ''E''}, {CHR ''b'', CHR ''B''}, {CHR ''m'', CHR ''M''}]"
  "map toLowerAscii ext = ''.mov'' \<longleftrightarrow> 
     list_all2 (\<in>) ext [{CHR ''.''}, {CHR ''m'', CHR ''M''}, {CHR ''o'', CHR ''O''}, {CHR ''v'', CHR ''V''}]"
  "map toLowerAscii ext = ''.avi'' \<longleftrightarrow> 
     list_all2 (\<in>) ext [{CHR ''.''}, {CHR ''a'', CHR ''A''}, {CHR ''v'', CHR ''V''}, {CHR ''i'', CHR ''I''}]"
  by (simp_all add: list_all2_Cons2 map_eq_Cons_conv toLowerAscii_letters del: insert_iff)

text \<open>The regular expression, letter by letter.\<close>

lemma matchesVideoExtension_iff:
  "matchesVideoExtension nm \<longleftrightarrow>
     (\<exists>stem ext. nm = stem @ ext \<and>
         (list_all2 (\<in>) ext [{CHR ''.''}, {CHR ''m'', CHR ''M''}, {CHR ''p'', CHR ''P''}, {CHR ''4''}]
          \<or> list_all2 (\<in>) ext [{CHR ''.''}, {CHR ''w'', CHR ''W''}, {CHR ''e'', CHR ''E''}, {CHR ''b'', CHR ''B''}, {CHR ''m'', CHR ''M''}]
          \<or> list_all2 (\<in>) ext [{CHR ''.''}, {CHR ''m'', CHR ''M''}, {CHR ''o'', CHR ''O''}, {CHR ''v'', CHR ''V''}]
          \<or> list_all2 (\<in>) ext [{CHR ''.''}, {CHR ''a'', CHR ''A''}, {CHR ''v'', CHR ''V''}, {CHR ''i'', CHR ''I''}]))"
  unfolding lowered_extension_iff [symmetric]
  by (simp add: matchesVideoExtension_def endsWith_map_iff ex_disj_distrib conj_disj_distribL)

text \<open>
  C1. A file whose MIME type is \<open>video/mp4\<close>, \<open>video/webm\<close>, \<open>video/quicktime\<close> or
  \<open>video/x-msvideo\<close>, or whose name ends in \<open>.mp4\<close>, \<open>.webm\<close>, \<open>.mov\<close> or \<open>.avi\<close>
  with each letter in either case, and whose size is at most 100 * 1024 * 1024 bytes,
  is accepted and the error cell is cleared. A rejection with the wrong-format reason
  happens only when the MIME type is none of the four and the name has none of the four
  endings.
\<close>

theorem validateFile_accepts:
  "((file_type f \<in> {''video/mp4'', ''video/webm'', ''video/quicktime'', ''video/x-msvideo''}
      \<or> (\<exists>stem ext. file_name f = stem @ ext \<and>
            (list_all2 (\<in>) ext [{CHR ''.''}, {CHR ''m'', CHR ''M''}, {CHR ''p'', CHR ''P''}, {CHR ''4''}]
             \<or> list_all2 (\<in>) ext [{CHR ''.''}, {CHR ''w'', CHR ''W''}, {CHR ''e'', CHR ''E''}, {CHR ''b'', CHR ''B''}, {CHR ''m'', CHR ''M''}]
             \<or> list_all2 (\<in>) ext [{CHR ''.''}, {CHR ''m'', CHR ''M''}, {CHR ''o'', CHR ''O''}, {CHR ''v'', CHR ''V''}]
             \<or> list_all2 (\<in>) ext [{CHR ''.''}, {CHR ''a'', CHR ''A''}, {CHR ''v'', CHR ''V''}, {CHR ''i'', CHR ''I''}])))
      \<and> file_size f \<le> 100 * 1024 * 1024
     \<longrightarrow> validateFile f st = (True, st\<lparr>error := None\<rparr>))
   \<and> (error (snd (validateFile f st)) = Some formatError
     \<longrightarrow> file_type f \<notin> {''video/mp4'', ''video/webm'', ''video/quicktime'', ''video/x-msvideo''}
       \<and> \<not> (\<exists>stem ext. file_name f = stem @ ext \<and>
            (list_all2 (\<in>) ext [{CHR ''.''}, {CHR ''m'', CHR ''M''}, {CHR ''p'', CHR ''P''}, {CHR ''4''}]
             \<or> list_all2 (\<in>) ext [{CHR ''.''}, {CHR ''w'', CHR ''W''}, {CHR ''e'', CHR ''E''}, {CHR ''b'', CHR ''B''}, {CHR ''m'', CHR ''M''}]
             \<or> list_all2 (\<in>) ext [{CHR ''.''}, {CHR ''m'', CHR ''M''}, {CHR ''o'', CHR ''O''}, {CHR ''v'', CHR ''V''}]
             \<or> list_all2 (\<in>) ext [{CHR ''.''}, {CHR ''a'', CHR ''A''}, {CHR ''v'', CHR ''V''}, {CHR ''i'', CHR ''I''}])))"
proof -
  have t: "file_type f \<in> {''video/mp4'', ''video/webm'', ''video/quicktime'', ''video/x-msvideo''}
      \<longleftrightarrow> file_type f \<in> set validTypes"
    by (simp add: validTypes_def)
  have m: "(\<exists>stem ext. file_name f = stem @ ext \<and>
            (list_all2 (\<in>) ext [{CHR ''.''}, {CHR ''m'', CHR ''M''}, {CHR ''p'', CHR ''P''}, {CHR ''4''}]
             \<or> list_all2 (\<in>) ext [{CHR ''.''}, {CHR ''w'', CHR ''W''}, {CHR ''e'', CHR ''E''}, {CHR ''b'', CHR ''B''}, {CHR ''m'', CHR ''M''}]
             \<or> list_all2 (\<in>) ext [{CHR ''.''}, {CHR ''m'', CHR ''M''}, {CHR ''o'', CHR ''O''}, {CHR ''v'', CHR ''V''}]
             \<or> list_all2 (\<in>) ext [{CHR ''.''}, {CHR ''a'', CHR ''A''}, {CHR ''v'', CHR ''V''}, {CHR ''i'', CHR ''I''}]))
      \<longleftrightarrow> matchesVideoExtension (file_name f)"
    by (rule matchesVideoExtension_iff [symmetric])
  show ?thesis
    unfolding t m
    by (auto simp: validateFile_def maxSize_def formatError_neq_sizeError
        formatError_neq_sizeError [symmetric])
qed

theorem validateFile_accepts_witness:
  "validateFile
       \<lparr>file_name = ''a.bin'', file_type = ''video/mp4'', file_size = 50 * 1024 * 1024\<rparr>
       (upload_initial\<lparr>error := Some sizeError\<rparr>)
     = (True, upload_initial\<lparr>error := None\<rparr>)
   \<and> validateFile
       \<lparr>file_name = ''a.bin'', file_type = ''video/webm'', file_size = 1024\<rparr>
       (upload_initial\<lparr>error := Some sizeError\<rparr>)
     = (True, upload_initial\<lparr>error := None\<rparr>)
   \<and> validateFile
       \<lparr>file_name = ''a.bin'', file_type = ''video/quicktime'', file_size = 1024\<rparr>
       (upload_initial\<lparr>error := Some sizeError\<rparr>)
     = (True, upload_initial\<lparr>error := None\<rparr>)
   \<and> validateFile
       \<lparr>file_name = ''a.bin'', file_type = ''video/x-msvideo'', file_size = 0\<rparr>
       (upload_initial\<lparr>error := Some sizeError\<rparr>)
     = (True, upload_initial\<lparr>error := None\<rparr>)
   \<and> validateFile
       \<lparr>file_name = ''clip.Mp4'', file_type = ''application/octet-stream'', file_size = 1024\<rparr>
       (upload_initial\<lparr>error := Some sizeError\<rparr>)
     = (True, upload_initial\<lparr>error := None\<rparr>)
   \<and> validateFile
       \<lparr>file_name = ''b.WEBM'', file_type = [], file_size = 1024\<rparr>
       (upload_initial\<lparr>error := Some sizeError\<rparr>)
     = (True, upload_initial\<lparr>error := None\<rparr>)
   \<and> validateFile
       \<lparr>file_name = ''HOLIDAY.MOV'', file_type = [], file_size = 100 * 1024 * 1024\<rparr>
       (upload_initial\<lparr>error := Some sizeError\<rparr>)
     = (True, upload_initial\<lparr>error := None\<rparr>)
   \<and> validateFile
       \<lparr>file_name = ''c.aVi'', file_type = ''text/plain'', file_size = 7\<rparr>
       (upload_initial\<lparr>error := Some sizeError\<rparr>)
     = (True, upload_initial\<lparr>error := None\<rparr>)
   \<and> error (snd (validateFile
       \<lparr>file_name = ''notes.txt'', file_type = ''text/plain'', file_size = 10\<rparr>
       upload_initial)) = Some formatError
   \<and> ''text/plain'' \<notin> {''video/mp4'', ''video/webm'', ''video/quicktime'', ''video/x-msvideo''}
   \<and> \<not> matchesVideoExtension ''notes.txt''"
proof -
  have acc: "validateFile F st = (True, st\<lparr>error := None\<rparr>)"
    if "file_type F \<in> set validTypes \<or> matchesVideoExtension (file_name F)"
      and "file_size F \<le> 100 * 1024 * 1024" for F st
  proof -
    from that(1) have "file_type F \<in> {''video/mp4'', ''video/webm'', ''video/quicktime'', ''video/x-msvideo''}
      \<or> (\<exists>stem ext. file_name F = stem @ ext \<and>
              (list_all2 (\<in>) ext [{CHR ''.''}, {CHR ''m'', CHR ''M''}, {CHR ''p'', CHR ''P''}, {CHR ''4''}]
               \<or> list_all2 (\<in>) ext [{CHR ''.''}, {CHR ''w'', CHR ''W''}, {CHR ''e'', CHR ''E''}, {CHR ''b'', CHR ''B''}, {CHR ''m'', CHR ''M''}]
               \<or> list_all2 (\<in>) ext [{CHR ''.''}, {CHR ''m'', CHR ''M''}, {CHR ''o'', CHR ''O''}, {CHR ''v'', CHR ''V''}]
               \<or> list_all2 (\<in>) ext [{CHR ''.''}, {CHR ''a'', CHR ''A''}, {CHR ''v'', CHR ''V''}, {CHR ''i'', CHR ''I''}]))"
      unfolding matchesVideoExtension_iff validTypes_def by simp
    with that(2) validateFile_accepts [of F st] show ?thesis by blast
  qed
  have rej: "error (snd (validateFile
       \<lparr>file_name = ''notes.txt'', file_type = ''text/plain'', file_size = 10\<rparr>
       upload_initial)) = Some formatError"
    by (simp add: validateFile_def validTypes_def matchesVideoExtension_def endsWith_def
        toLowerAscii_def)
  from validateFile_accepts
    [of "\<lparr>file_name = ''notes.txt'', file_type = ''text/plain'', file_size = 10\<rparr>" upload_initial] rej
  have "''text/plain'' \<notin> {''video/mp4'', ''video/webm'', ''video/quicktime'', ''video/x-msvideo''}
    \<and> \<not> matchesVideoExtension ''notes.txt''"
    unfolding matchesVideoExtension_iff by simp
  with rej show ?thesis
    by (simp add: acc validTypes_def matchesVideoExtension_def endsWith_def toLowerAscii_def
        upload_initial_def)
qed

text \<open>
  C2, as the claim states it, fails: a file above the ceiling whose MIME type and
  extension both fail is rejected with the wrong-format reason, since the format check
  comes first.
\<close>

theorem validateFile_oversize_counterexample:
  "file_size
     \<lparr>file_name = ''notes.txt'', file_type = ''text/plain'', file_size = 150 * 1024 * 1024\<rparr>
     > 100 * 1024 * 1024
   \<and> validateFile
       \<lparr>file_name = ''notes.txt'', file_type = ''text/plain'', file_size = 150 * 1024 * 1024\<rparr>
       upload_initial
     = (False, upload_initial\<lparr>error := Some formatError\<rparr>)
   \<and> formatError \<noteq> sizeError"
  by (simp add: validateFile_def validTypes_def matchesVideoExtension_def endsWith_def
      toLowerAscii_def maxSize_def formatError_def sizeError_def)

text \<open>
  C2, amended. Every file larger than 100 * 1024 * 1024 bytes is rejected. The reason is
  the size reason when the MIME type is accepted or the extension matches, and the
  wrong-format reason when both fail; the two reasons differ.
\<close>

theorem validateFile_oversize:
  "file_size f > 100 * 1024 * 1024 \<Longrightarrow>
     validateFile f st =
       (False,
        st\<lparr>error :=
             Some (if file_type f \<in> set validTypes \<or> matchesVideoExtension (file_name f)
                   then sizeError else formatError)\<rparr>)
     \<and> sizeError \<noteq> formatError"
  by (simp add: validateFile_def maxSize_def formatError_def sizeError_def)

theorem validateFile_oversize_witness:
  "file_size \<lparr>file_name = ''clip.mov'', file_type = [], file_size = 150 * 1024 * 1024\<rparr>
     > 100 * 1024 * 1024
   \<and> validateFile
       \<lparr>file_name = ''clip.mov'', file_type = [], file_size = 150 * 1024 * 1024\<rparr>
       upload_initial
     = (False, upload_initial\<lparr>error := Some sizeError\<rparr>)"
  using validateFile_oversize
    [of "\<lparr>file_name = ''clip.mov'', file_type = [], file_size = 150 * 1024 * 1024\<rparr>"
        upload_initial]
  by (simp add: validTypes_def matchesVideoExtension_def endsWith_def toLowerAscii_def)

section \<open>The runs of handleProcess\<close>

lemma alerts_append: "alerts (xs @ ys) = alerts xs @ alerts ys"
  by (induction xs rule: alerts.induct) simp_all

lemma timers_append: "timers (xs @ ys) = timers xs @ timers ys"
  by (induction xs rule: timers.induct) simp_all

lemma map_of_stripServerFields:
  "map_of (stripServerFields obj) k =
     (if k = ''id'' \<or> k = ''created_at'' then None else map_of obj k)"
  by (induction obj) (auto simp: stripServerFields_def)

lemma demo_run:
  "handleProcess demoApi 1000 (Some demoUser) demoSession = (demoComplete, demoTrace)"
  by (simp add: handleProcess_def tryBlock_def demoApi_def demoUser_def demoSession_def
      demoFile_def demoComplete_def demoTrace_def orElse_def stripServerFields_def
      demoRows_def demoPrediction_def Let_def)

lemma failing_run:
  "handleProcess failingApi 1000 (Some demoUser) demoSession = (demoSession, failingTrace)"
  by (simp add: handleProcess_def tryBlock_def failingApi_def demoApi_def demoUser_def
      demoSession_def demoFile_def failingTrace_def orElse_def Let_def)

lemma demo_artifact: "\<not> (videoBlob demoSession = None \<and> videoFile demoSession = None)"
  by (simp add: demoSession_def)

lemma demo_no_throw: "\<forall>c\<in>set demoTrace. throws demoApi c = None"
  by (simp add: demoTrace_def demoApi_def)

lemma demo_throws:
  "map (throws demoApi) demoTrace = [None, None, None, None, None, None, None]"
  by (simp add: demoTrace_def demoApi_def)

text \<open>A run of the \<open>try\<close> block that ends in a throw.\<close>

lemma tryBlock_failure:
  assumes "tryBlock api now u s = (s', effs, Some err)"
  shows "s' = s\<lparr>uploading := True\<rparr> \<and> timers effs = [] \<and> alerts effs = [] \<and> effs \<noteq> []
     \<and> apiCalls effs = effs
     \<and> throws api (last effs) = Some err \<and> (\<forall>c\<in>set (butlast effs). throws api c = None)
     \<and> map stepOf effs = map Some (take (length effs) pipelineOrder)"
  using assms
  by (auto simp: tryBlock_def Let_def apiCalls_def pipelineOrder_def split: sum.splits)

text \<open>A run of the \<open>try\<close> block that reaches its end.\<close>

lemma tryBlock_success:
  assumes "tryBlock api now u s = (s', effs, None)"
  shows "\<exists>recording rows pred.
     createRecording api (user_id u)
        (orElse (map_option file_name (videoFile s))
           (''recording-'' @ string_of_nat now @ ''.webm'')) 60
       = Inr recording
     \<and> simulateHeartRateData api (rec_id recording) 60
        (orElse (map_option file_name (videoFile s))
           (''recording-'' @ string_of_nat now @ ''.webm''))
       = Inr rows
     \<and> simulateRiskPrediction api (rec_id recording) rows
        (orElse (map_option file_name (videoFile s))
           (''recording-'' @ string_of_nat now @ ''.webm''))
       = Inr pred
     \<and> s' = s\<lparr>uploading := True, recordingId := Some (rec_id recording),
              uploadComplete := True\<rparr>
     \<and> effs =
        [Call_ensureUserProfile (user_id u) (orElse (user_email u) []),
         Call_createRecording (user_id u)
           (orElse (map_option file_name (videoFile s))
              (''recording-'' @ string_of_nat now @ ''.webm'')) 60,
         Call_simulateHeartRateData (rec_id recording) 60
           (orElse (map_option file_name (videoFile s))
              (''recording-'' @ string_of_nat now @ ''.webm'')),
         Call_simulateRiskPrediction (rec_id recording) rows
           (orElse (map_option file_name (videoFile s))
              (''recording-'' @ string_of_nat now @ ''.webm'')),
         Call_saveHeartRateData (map stripServerFields rows),
         Call_saveRiskPrediction (stripServerFields pred),
         SetTimeout (PageAnalysis, Some (rec_id recording)) 2000]
     \<and> (\<forall>c\<in>set effs. throws api c = None)"
  using assms
  by (auto simp: tryBlock_def Let_def split: sum.splits)

text \<open>The two ways a run with a user and an artifact ends.\<close>

lemma handleProcess_cases:
  assumes art: "\<not> (videoBlob s = None \<and> videoFile s = None)"
    and run: "handleProcess api now (Some u) s = (s', effs)"
  obtains
    (failed) calls err where
      "tryBlock api now u s = (s\<lparr>uploading := True\<rparr>, calls, Some err)"
      "s' = s\<lparr>uploading := False\<rparr>"
      "effs = calls @ [ConsoleError ''Processing failed:'' err,
         Alert (''Failed to process video: '' @
           (case err of ErrorInstance m \<Rightarrow> m | OtherValue _ \<Rightarrow> ''Unknown error''))]"
  | (succeeded) s1 where
      "tryBlock api now u s = (s1, effs, None)" "s' = s1\<lparr>uploading := False\<rparr>"
proof (cases "tryBlock api now u s")
  case (fields s1 calls outcome)
  show thesis
  proof (cases outcome)
    case None
    with fields art run show thesis
      by (intro succeeded [of s1]) (auto simp: handleProcess_def)
  next
    case (Some err)
    with fields have "s1 = s\<lparr>uploading := True\<rparr>"
      using tryBlock_failure [of api now u s s1 calls err] by simp
    with Some fields art run show thesis
      by (intro failed [of calls err]) (auto simp: handleProcess_def)
  qed
qed

text \<open>A run in which a call threw: the call that threw is the last one.\<close>

lemma handleProcess_failed_run:
  assumes "tryBlock api now u s = (s\<lparr>uploading := True\<rparr>, calls, Some err)"
    and "effs = calls @ [ConsoleError ''Processing failed:'' err, Alert msg]"
  shows "apiCalls effs = calls" and "calls \<noteq> []" and "throws api (last calls) = Some err"
    and "\<forall>c\<in>set (butlast calls). throws api c = None"
    and "map stepOf calls = map Some (take (length calls) pipelineOrder)"
    and "timers effs = []" and "alerts effs = [msg]"
    and "\<And>c e. c \<in> set effs \<Longrightarrow> throws api c = Some e \<Longrightarrow> e = err"
proof -
  note f = tryBlock_failure [OF assms(1)]
  from f have ac: "apiCalls calls = calls" by simp
  show "apiCalls effs = calls"
    using ac by (simp add: assms(2) apiCalls_def)
  show ne: "calls \<noteq> []" using f by simp
  show l: "throws api (last calls) = Some err" using f by simp
  show b: "\<forall>c\<in>set (butlast calls). throws api c = None" using f by simp
  show "map stepOf calls = map Some (take (length calls) pipelineOrder)" using f by simp
  show "timers effs = []" using f by (simp add: assms(2) timers_append)
  show "alerts effs = [msg]" using f by (simp add: assms(2) alerts_append)
  fix c e
  assume c: "c \<in> set effs" and t: "throws api c = Some e"
  from c t have "c \<in> set calls" by (auto simp: assms(2))
  moreover from ne have "set (butlast calls @ [last calls]) = set calls" by simp
  ultimately have "c \<in> set (butlast calls) \<or> c = last calls" by auto
  with b l t show "e = err" by auto
qed

section \<open>The pipeline\<close>

text \<open>
  C3. With a user and an artifact, the calls of a run are an initial part of the
  sequence ensure profile, create recording, generate series, generate prediction,
  persist series, persist prediction, in this order (the fifth step of the pipeline is
  the two persisting calls); every call but the last returned, so a call that throws is
  the last one of the run. When no call threw, all six were made, and the page is in the
  complete state: \<open>uploadComplete\<close> is true, \<open>uploading\<close> is false and \<open>recordingId\<close> is
  the id of the recording that the call of \<open>createRecording\<close> returned.
\<close>

theorem handleProcess_steps_in_order:
  assumes "\<not> (videoBlob s = None \<and> videoFile s = None)"
    and "handleProcess api now (Some u) s = (s', effs)"
  shows "apiCalls effs \<noteq> []
    \<and> map stepOf (apiCalls effs) = map Some (take (length (apiCalls effs)) pipelineOrder)
    \<and> (\<forall>c\<in>set (butlast (apiCalls effs)). throws api c = None)
    \<and> ((\<forall>c\<in>set (apiCalls effs). throws api c = None) \<longrightarrow>
         map stepOf (apiCalls effs) = map Some pipelineOrder
         \<and> uploadComplete s' \<and> \<not> uploading s'
         \<and> (\<exists>uid fileName duration recording.
              Call_createRecording uid fileName duration \<in> set effs
              \<and> createRecording api uid fileName duration = Inr recording
              \<and> recordingId s' = Some (rec_id recording)))"
  using assms
proof (cases rule: handleProcess_cases)
  case (failed calls err)
  note r = handleProcess_failed_run [OF failed(1) failed(3)]
  from r(2) r(3) have "\<not> (\<forall>c\<in>set calls. throws api c = None)"
    by (metis last_in_set option.distinct(1))
  with r(1) have thrown: "\<not> (\<forall>c\<in>set (apiCalls effs). throws api c = None)"
    by simp
  from r have "apiCalls effs \<noteq> []"
    and "map stepOf (apiCalls effs) = map Some (take (length (apiCalls effs)) pipelineOrder)"
    and "\<forall>c\<in>set (butlast (apiCalls effs)). throws api c = None"
    by simp_all
  with thrown show ?thesis by blast
next
  case (succeeded s1)
  from tryBlock_success [OF succeeded(1)] obtain recording rows pred where
    c: "createRecording api (user_id u)
        (orElse (map_option file_name (videoFile s))
           (''recording-'' @ string_of_nat now @ ''.webm'')) 60 = Inr recording"
    and s1: "s1 = s\<lparr>uploading := True, recordingId := Some (rec_id recording),
              uploadComplete := True\<rparr>"
    and effs: "effs =
        [Call_ensureUserProfile (user_id u) (orElse (user_email u) []),
         Call_createRecording (user_id u)
           (orElse (map_option file_name (videoFile s))
              (''recording-'' @ string_of_nat now @ ''.webm'')) 60,
         Call_simulateHeartRateData (rec_id recording) 60
           (orElse (map_option file_name (videoFile s))
              (''recording-'' @ string_of_nat now @ ''.webm'')),
         Call_simulateRiskPrediction (rec_id recording) rows
           (orElse (map_option file_name (videoFile s))
              (''recording-'' @ string_of_nat now @ ''.webm'')),
         Call_saveHeartRateData (map stripServerFields rows),
         Call_saveRiskPrediction (stripServerFields pred),
         SetTimeout (PageAnalysis, Some (rec_id recording)) 2000]"
    and ok: "\<forall>c\<in>set effs. throws api c = None"
    by blast
  have calls: "apiCalls effs = butlast effs"
    by (simp add: effs apiCalls_def)
  have "recordingId s' = Some (rec_id recording)" "uploadComplete s'" "\<not> uploading s'"
    by (simp_all add: succeeded(2) s1)
  moreover have "Call_createRecording (user_id u)
           (orElse (map_option file_name (videoFile s))
              (''recording-'' @ string_of_nat now @ ''.webm'')) 60 \<in> set effs"
    by (simp add: effs)
  moreover have "map stepOf (apiCalls effs) = map Some pipelineOrder"
    by (simp add: effs apiCalls_def pipelineOrder_def)
  moreover have "\<forall>c\<in>set (butlast (apiCalls effs)). throws api c = None"
    using ok by (simp add: effs apiCalls_def)
  moreover have "apiCalls effs \<noteq> []" "length (apiCalls effs) = 6"
    by (simp_all add: effs apiCalls_def)
  ultimately show ?thesis
    using c by (auto simp: pipelineOrder_def)
qed

theorem handleProcess_steps_in_order_witness:
  "\<not> (videoBlob demoSession = None \<and> videoFile demoSession = None)
   \<and> handleProcess demoApi 1000 (Some demoUser) demoSession = (demoComplete, demoTrace)
   \<and> map (throws demoApi) (apiCalls demoTrace) = [None, None, None, None, None, None]
   \<and> map stepOf (apiCalls demoTrace) = map Some pipelineOrder
   \<and> uploadComplete demoComplete \<and> \<not> uploading demoComplete
   \<and> (\<exists>uid fileName duration recording.
        Call_createRecording uid fileName duration \<in> set demoTrace
        \<and> createRecording demoApi uid fileName duration = Inr recording
        \<and> recordingId demoComplete = Some (rec_id recording))"
proof -
  have ok: "\<forall>c\<in>set (apiCalls demoTrace). throws demoApi c = None"
    by (simp add: demoTrace_def demoApi_def apiCalls_def)
  have "map (throws demoApi) (apiCalls demoTrace) = [None, None, None, None, None, None]"
    by (simp add: demoTrace_def demoApi_def apiCalls_def)
  with ok handleProcess_steps_in_order [OF demo_artifact demo_run] demo_artifact demo_run
  show ?thesis by blast
qed

text \<open>
  C4. In every state in which \<open>uploading\<close> is true, the buttons wired to \<open>handleProcess\<close>
  are disabled (and so are those wired to \<open>handleReset\<close>), so triggering the process
  again does nothing: no pipeline step is called, nothing else happens, and the session
  is unchanged.
\<close>

theorem clickAnalyze_while_uploading:
  assumes "uploading s"
  shows "clickAnalyze p api now user s = (s, []) \<and> clickReset p s = s"
  using assms by (simp add: clickAnalyze_def clickReset_def)

theorem clickAnalyze_while_uploading_witness:
  "uploading (demoSession\<lparr>uploading := True\<rparr>)
   \<and> clickAnalyze FilePanel demoApi 1000 (Some demoUser) (demoSession\<lparr>uploading := True\<rparr>)
       = (demoSession\<lparr>uploading := True\<rparr>, [])
   \<and> clickReset FilePanel (demoSession\<lparr>uploading := True\<rparr>) = demoSession\<lparr>uploading := True\<rparr>"
proof -
  have u: "uploading (demoSession\<lparr>uploading := True\<rparr>)" by simp
  from clickAnalyze_while_uploading [OF u] u show ?thesis by blast
qed

text \<open>
  C5, as the claim states it, fails where it says that the thrown error's message is
  surfaced: the handler reads the message only of an instance of \<open>Error\<close>. When the
  creation of the recording throws a plain object with the message \<open>duplicate key\<close>, the
  alert shows \<open>Unknown error\<close> and the message is not shown.
\<close>

theorem handleProcess_non_Error_counterexample:
  "throws rejectingApi (Call_createRecording ''user-1'' ''clip.mp4'' 60)
     = Some (OtherValue ''duplicate key'')
   \<and> handleProcess rejectingApi 1000 (Some demoUser) demoSession =
       (demoSession,
        [Call_ensureUserProfile ''user-1'' ''a@b.c'',
         Call_createRecording ''user-1'' ''clip.mp4'' 60,
         ConsoleError ''Processing failed:'' (OtherValue ''duplicate key''),
         Alert ''Failed to process video: Unknown error''])
   \<and> alerts (snd (handleProcess rejectingApi 1000 (Some demoUser) demoSession))
       = [''Failed to process video: Unknown error'']"
  by (simp add: handleProcess_def tryBlock_def rejectingApi_def demoApi_def demoUser_def
      demoSession_def demoFile_def orElse_def Let_def)

text \<open>
  C5, amended. With a user and an artifact, \<open>uploading\<close> is false after the run, whether
  it succeeded or failed. When a call threw, the session after the run is the session
  before it with \<open>uploading\<close> false: the artifact, \<open>uploadComplete\<close> and \<open>recordingId\<close>
  are unchanged, no timer is set, and one alert is shown, which carries the message of
  the thrown value when it is an instance of \<open>Error\<close> and the text \<open>Unknown error\<close>
  when it is not.
\<close>

theorem handleProcess_failure_keeps_artifact:
  assumes "\<not> (videoBlob s = None \<and> videoFile s = None)"
    and "handleProcess api now (Some u) s = (s', effs)"
  shows "\<not> uploading s'
    \<and> (\<forall>c\<in>set effs. \<forall>err. throws api c = Some err \<longrightarrow>
         s' = s\<lparr>uploading := False\<rparr>
         \<and> videoBlob s' = videoBlob s \<and> videoFile s' = videoFile s
         \<and> uploadComplete s' = uploadComplete s \<and> recordingId s' = recordingId s
         \<and> mode s' = mode s
         \<and> timers effs = []
         \<and> alerts effs =
             [''Failed to process video: '' @
                (case err of ErrorInstance m \<Rightarrow> m | OtherValue _ \<Rightarrow> ''Unknown error'')])"
  using assms
proof (cases rule: handleProcess_cases)
  case (failed calls err)
  note r = handleProcess_failed_run [OF failed(1) failed(3)]
  have "\<not> uploading s'" by (simp add: failed(2))
  moreover have "videoBlob s' = videoBlob s" "videoFile s' = videoFile s"
    "uploadComplete s' = uploadComplete s" "recordingId s' = recordingId s" "mode s' = mode s"
    by (simp_all add: failed(2))
  ultimately show ?thesis
    using r(6) r(7) r(8) failed(2) by blast
next
  case (succeeded s1)
  from tryBlock_success [OF succeeded(1)]
  have "\<forall>c\<in>set effs. throws api c = None" by blast
  moreover have "\<not> uploading s'" by (simp add: succeeded(2))
  ultimately show ?thesis by simp
qed

theorem handleProcess_failure_keeps_artifact_witness:
  "\<not> (videoBlob demoSession = None \<and> videoFile demoSession = None)
   \<and> handleProcess failingApi 1000 (Some demoUser) demoSession = (demoSession, failingTrace)
   \<and> Call_createRecording ''user-1'' ''clip.mp4'' 60 \<in> set failingTrace
   \<and> throws failingApi (Call_createRecording ''user-1'' ''clip.mp4'' 60)
       = Some (ErrorInstance ''insert failed'')
   \<and> \<not> uploading demoSession
   \<and> videoFile demoSession = Some demoFile
   \<and> timers failingTrace = []
   \<and> alerts failingTrace = [''Failed to process video: insert failed'']"
proof -
  have c: "Call_createRecording ''user-1'' ''clip.mp4'' 60 \<in> set failingTrace"
    by (simp add: failingTrace_def)
  have t: "throws failingApi (Call_createRecording ''user-1'' ''clip.mp4'' 60)
       = Some (ErrorInstance ''insert failed'')"
    by (simp add: failingApi_def)
  from handleProcess_failure_keeps_artifact [OF demo_artifact failing_run] c t
  have "timers failingTrace = []
    \<and> alerts failingTrace = [''Failed to process video: '' @
                (case ErrorInstance ''insert failed'' of
                   ErrorInstance m \<Rightarrow> m | OtherValue _ \<Rightarrow> ''Unknown error'')]"
    and "\<not> uploading demoSession"
    by blast+
  with c t demo_artifact failing_run show ?thesis
    by (simp add: demoSession_def)
qed

text \<open>What \<open>handleReset\<close> writes and what it leaves.\<close>

lemma handleReset_writes:
  "handleReset s = initial\<lparr>uploading := uploading s, recordingId := recordingId s\<rparr>
   \<and> (handleReset s = initial) = (\<not> uploading s \<and> recordingId s = None)"
  by (cases s) (auto simp: handleReset_def initial_def)

text \<open>A click on a button wired to \<open>handleProcess\<close> leads to a state of the page.\<close>

lemma clickAnalyze_reachable:
  assumes "reachable s"
  shows "reachable (fst (clickAnalyze p api now user s))"
proof (cases "panelShown p s \<and> \<not> uploading s")
  case False
  with assms show ?thesis by (auto simp: clickAnalyze_def)
next
  case enabled: True
  then have click: "clickAnalyze p api now user s = handleProcess api now user s"
    by (simp add: clickAnalyze_def)
  from enabled assms have started: "reachable (s\<lparr>uploading := True\<rparr>)"
    by (blast intro: reachable.process_started)
  show ?thesis
  proof (cases user)
    case None
    with assms click show ?thesis by (simp add: handleProcess_def)
  next
    case (Some u)
    from enabled have art: "\<not> (videoBlob s = None \<and> videoFile s = None)"
      by (auto simp: panelShown_def split: panel.splits)
    obtain s' effs where run: "handleProcess api now (Some u) s = (s', effs)"
      by (cases "handleProcess api now (Some u) s")
    from art run have "reachable s'"
    proof (cases rule: handleProcess_cases)
      case (failed calls err)
      from reachable.process_failed [OF started] show ?thesis
        by (simp add: failed(2))
    next
      case (succeeded s1)
      from tryBlock_success [OF succeeded(1)] obtain recording :: Recording where
        "s1 = s\<lparr>uploading := True, recordingId := Some (rec_id recording),
              uploadComplete := True\<rparr>"
        by auto
      with reachable.process_succeeded [OF started, of "rec_id recording"] show ?thesis
        by (simp add: succeeded(2))
    qed
    with click run Some show ?thesis by simp
  qed
qed

text \<open>\<open>recordingId\<close> is written only together with \<open>uploadComplete\<close>.\<close>

lemma reachable_recordingId:
  assumes "reachable s" and "\<not> uploadComplete s"
  shows "recordingId s = None"
  using assms
  by (induction rule: reachable.induct)
    (auto simp: initial_def handleRecordingComplete_def handleFileSelect_def clickReset_def
      handleReset_def panelShown_def split: if_splits panel.splits)

text \<open>
  C6. In every state of the page in which a reset button is rendered and enabled, the
  reset returns the session to the initial one: the mode is \<open>select\<close>, both artifact
  cells are null, and \<open>uploading\<close>, \<open>uploadComplete\<close> and \<open>recordingId\<close> have their
  initial values.
\<close>

theorem clickReset_gives_initial:
  assumes "reachable s" and "panelShown p s" and "\<not> uploading s"
  shows "clickReset p s = initial \<and> handleReset s = initial"
proof -
  from assms(2) have "\<not> uploadComplete s"
    by (auto simp: panelShown_def split: panel.splits)
  with assms(1) have "recordingId s = None" by (rule reachable_recordingId)
  with assms(3) have "handleReset s = initial"
    using handleReset_writes [of s] by blast
  with assms(2,3) show ?thesis by (simp add: clickReset_def)
qed

theorem clickReset_gives_initial_witness:
  "reachable demoSession \<and> panelShown FilePanel demoSession \<and> \<not> uploading demoSession
   \<and> clickReset FilePanel demoSession = initial
   \<and> handleReset demoSession = initial"
proof -
  have "reachable (initial\<lparr>mode := ModeUpload\<rparr>)"
    by (rule reachable.choose_upload [OF reachable.page_mounted]) (simp add: initial_def)
  then have "reachable (handleFileSelect demoFile (initial\<lparr>mode := ModeUpload\<rparr>))"
    by (rule reachable.file_select)
  moreover have "handleFileSelect demoFile (initial\<lparr>mode := ModeUpload\<rparr>) = demoSession"
    by (simp add: handleFileSelect_def initial_def demoSession_def)
  ultimately have r: "reachable demoSession" by simp
  have p: "panelShown FilePanel demoSession" and u: "\<not> uploading demoSession"
    by (simp_all add: panelShown_def demoSession_def)
  from clickReset_gives_initial [OF r p u] r p u show ?thesis by blast
qed

text \<open>
  C7. In a run in which no call threw, \<open>createRecording\<close> is called once, with the id of
  the user, with a duration of 60 whatever the artifact is, and with the name of the
  uploaded file when there is one and its name is not empty, and otherwise (a recorded
  blob, or a file whose name is the empty string) with \<open>recording-\<close>, the decimal digits
  of \<open>Date.now()\<close> and \<open>.webm\<close>.
\<close>

theorem handleProcess_createRecording_arguments:
  assumes "\<not> (videoBlob s = None \<and> videoFile s = None)"
    and "handleProcess api now (Some u) s = (s', effs)"
    and "\<forall>c\<in>set effs. throws api c = None"
  shows "filter (\<lambda>e. stepOf e = Some CreateRecording) effs =
     [Call_createRecording (user_id u)
        (case videoFile s of
           None \<Rightarrow> ''recording-'' @ string_of_nat now @ ''.webm''
         | Some f \<Rightarrow>
             if file_name f = [] then ''recording-'' @ string_of_nat now @ ''.webm''
             else file_name f)
        60]"
  using assms(1,2)
proof (cases rule: handleProcess_cases)
  case (failed calls err)
  note r = handleProcess_failed_run [OF failed(1) failed(3)]
  from r(2) have "last calls \<in> set effs" by (simp add: failed(3))
  with r(3) assms(3) show ?thesis by force
next
  case (succeeded s1)
  from tryBlock_success [OF succeeded(1)] show ?thesis
    by (auto simp: orElse_def split: option.splits)
qed

theorem handleProcess_createRecording_arguments_witness:
  "\<not> (videoBlob demoSession = None \<and> videoFile demoSession = None)
   \<and> handleProcess demoApi 1000 (Some demoUser) demoSession = (demoComplete, demoTrace)
   \<and> map (throws demoApi) demoTrace = [None, None, None, None, None, None, None]
   \<and> filter (\<lambda>e. stepOf e = Some CreateRecording) demoTrace =
       [Call_createRecording ''user-1'' ''clip.mp4'' 60]
   \<and> \<not> (videoBlob recordedSession = None \<and> videoFile recordedSession = None)
   \<and> map (throws demoApi)
        (snd (handleProcess demoApi 1700000000123 (Some demoUser) recordedSession))
       = [None, None, None, None, None, None, None]
   \<and> filter (\<lambda>e. stepOf e = Some CreateRecording)
        (snd (handleProcess demoApi 1700000000123 (Some demoUser) recordedSession)) =
       [Call_createRecording ''user-1'' ''recording-1700000000123.webm'' 60]"
proof -
  let ?r = "handleProcess demoApi 1700000000123 (Some demoUser) recordedSession"
  have art: "\<not> (videoBlob recordedSession = None \<and> videoFile recordedSession = None)"
    by (simp add: recordedSession_def)
  have run: "?r = (fst ?r, snd ?r)" by simp
  have m: "map (throws demoApi) (snd ?r) = [None, None, None, None, None, None, None]"
    by (simp add: handleProcess_def tryBlock_def demoApi_def demoUser_def recordedSession_def
        orElse_def Let_def)
  have ok: "\<forall>c\<in>set (snd ?r). throws demoApi c = None"
    by (simp add: handleProcess_def tryBlock_def demoApi_def demoUser_def recordedSession_def
        orElse_def Let_def)
  have n: "string_of_nat 1700000000123 = ''1700000000123''"
    by (simp add: string_of_nat.simps digitChar_def)
  from handleProcess_createRecording_arguments [OF art run ok]
  have "filter (\<lambda>e. stepOf e = Some CreateRecording) (snd ?r) =
       [Call_createRecording ''user-1'' ''recording-1700000000123.webm'' 60]"
    by (simp add: recordedSession_def demoUser_def n)
  with art m show ?thesis
    using handleProcess_createRecording_arguments [OF demo_artifact demo_run demo_no_throw]
      demo_artifact demo_run demo_throws
    by (simp add: demoSession_def demoFile_def demoUser_def)
qed

text \<open>
  C8. In a run in which no call threw, \<open>saveHeartRateData\<close> is called once, with the rows
  that \<open>simulateHeartRateData\<close> returned, each without its properties \<open>id\<close> and
  \<open>created_at\<close>, and then \<open>saveRiskPrediction\<close> once, with the object that
  \<open>simulateRiskPrediction\<close> returned, without these two properties. Every other property
  of a row or of the prediction has the value it had.
\<close>

theorem handleProcess_saves_stripped:
  assumes "\<not> (videoBlob s = None \<and> videoFile s = None)"
    and "handleProcess api now (Some u) s = (s', effs)"
    and "\<forall>c\<in>set effs. throws api c = None"
  shows "\<exists>rid duration fileName rows prediction savedRows savedPrediction.
      Call_simulateHeartRateData rid duration fileName \<in> set effs
    \<and> simulateHeartRateData api rid duration fileName = Inr rows
    \<and> Call_simulateRiskPrediction rid rows fileName \<in> set effs
    \<and> simulateRiskPrediction api rid rows fileName = Inr prediction
    \<and> filter (\<lambda>e. stepOf e = Some PersistSeries \<or> stepOf e = Some PersistPrediction) effs
        = [Call_saveHeartRateData savedRows, Call_saveRiskPrediction savedPrediction]
    \<and> length savedRows = length rows
    \<and> (\<forall>i<length rows.
          savedRows ! i = filter (\<lambda>(k, v). k \<noteq> ''id'' \<and> k \<noteq> ''created_at'') (rows ! i)
          \<and> (\<forall>k. map_of (savedRows ! i) k =
                (if k = ''id'' \<or> k = ''created_at'' then None else map_of (rows ! i) k)))
    \<and> savedPrediction = filter (\<lambda>(k, v). k \<noteq> ''id'' \<and> k \<noteq> ''created_at'') prediction
    \<and> (\<forall>k. map_of savedPrediction k =
          (if k = ''id'' \<or> k = ''created_at'' then None else map_of prediction k))"
  using assms(1,2)
proof (cases rule: handleProcess_cases)
  case (failed calls err)
  note r = handleProcess_failed_run [OF failed(1) failed(3)]
  from r(2) have "last calls \<in> set effs" by (simp add: failed(3))
  with r(3) assms(3) show ?thesis by force
next
  case (succeeded s1)
  from tryBlock_success [OF succeeded(1)] obtain recording :: Recording and rows pred where
    h: "simulateHeartRateData api (rec_id recording) 60
        (orElse (map_option file_name (videoFile s))
           (''recording-'' @ string_of_nat now @ ''.webm'')) = Inr rows"
    and p: "simulateRiskPrediction api (rec_id recording) rows
        (orElse (map_option file_name (videoFile s))
           (''recording-'' @ string_of_nat now @ ''.webm'')) = Inr pred"
    and effs: "effs =
        [Call_ensureUserProfile (user_id u) (orElse (user_email u) []),
         Call_createRecording (user_id u)
           (orElse (map_option file_name (videoFile s))
              (''recording-'' @ string_of_nat now @ ''.webm'')) 60,
         Call_simulateHeartRateData (rec_id recording) 60
           (orElse (map_option file_name (videoFile s))
              (''recording-'' @ string_of_nat now @ ''.webm'')),
         Call_simulateRiskPrediction (rec_id recording) rows
           (orElse (map_option file_name (videoFile s))
              (''recording-'' @ string_of_nat now @ ''.webm'')),
         Call_saveHeartRateData (map stripServerFields rows),
         Call_saveRiskPrediction (stripServerFields pred),
         SetTimeout (PageAnalysis, Some (rec_id recording)) 2000]"
    by blast
  let ?fn = "orElse (map_option file_name (videoFile s))
           (''recording-'' @ string_of_nat now @ ''.webm'')"
  have 1: "Call_simulateHeartRateData (rec_id recording) 60 ?fn \<in> set effs"
    and 2: "Call_simulateRiskPrediction (rec_id recording) rows ?fn \<in> set effs"
    and 3: "filter (\<lambda>e. stepOf e = Some PersistSeries \<or> stepOf e = Some PersistPrediction) effs
        = [Call_saveHeartRateData (map stripServerFields rows),
           Call_saveRiskPrediction (stripServerFields pred)]"
    by (simp_all add: effs)
  have 4: "length (map stripServerFields rows) = length rows" by simp
  have 5: "\<forall>i<length rows.
          map stripServerFields rows ! i
            = filter (\<lambda>(k, v). k \<noteq> ''id'' \<and> k \<noteq> ''created_at'') (rows ! i)
          \<and> (\<forall>k. map_of (map stripServerFields rows ! i) k =
                (if k = ''id'' \<or> k = ''created_at'' then None else map_of (rows ! i) k))"
    by (simp add: map_of_stripServerFields) (simp add: stripServerFields_def)
  have 6: "stripServerFields pred
        = filter (\<lambda>(k, v). k \<noteq> ''id'' \<and> k \<noteq> ''created_at'') pred"
    by (simp add: stripServerFields_def)
  have 7: "\<forall>k. map_of (stripServerFields pred) k =
          (if k = ''id'' \<or> k = ''created_at'' then None else map_of pred k)"
    by (simp add: map_of_stripServerFields)
  from h p 1 2 3 4 5 6 7 show ?thesis by blast
qed

theorem handleProcess_saves_stripped_witness:
  "\<not> (videoBlob demoSession = None \<and> videoFile demoSession = None)
   \<and> handleProcess demoApi 1000 (Some demoUser) demoSession = (demoComplete, demoTrace)
   \<and> map (throws demoApi) demoTrace = [None, None, None, None, None, None, None]
   \<and> (\<exists>savedRows savedPrediction.
        filter (\<lambda>e. stepOf e = Some PersistSeries \<or> stepOf e = Some PersistPrediction) demoTrace
          = [Call_saveHeartRateData savedRows, Call_saveRiskPrediction savedPrediction])
   \<and> filter (\<lambda>e. stepOf e = Some PersistSeries \<or> stepOf e = Some PersistPrediction) demoTrace
        = [Call_saveHeartRateData
             [[(''recording_id'', 7), (''heart_rate'', 72)],
              [(''recording_id'', 7), (''heart_rate'', 75)]],
           Call_saveRiskPrediction [(''recording_id'', 7), (''risk_score'', 12)]]"
proof -
  from handleProcess_saves_stripped [OF demo_artifact demo_run demo_no_throw]
  have "\<exists>savedRows savedPrediction.
        filter (\<lambda>e. stepOf e = Some PersistSeries \<or> stepOf e = Some PersistPrediction) demoTrace
          = [Call_saveHeartRateData savedRows, Call_saveRiskPrediction savedPrediction]"
    by blast
  moreover have
    "filter (\<lambda>e. stepOf e = Some PersistSeries \<or> stepOf e = Some PersistPrediction) demoTrace
        = [Call_saveHeartRateData
             [[(''recording_id'', 7), (''heart_rate'', 72)],
              [(''recording_id'', 7), (''heart_rate'', 75)]],
           Call_saveRiskPrediction [(''recording_id'', 7), (''risk_score'', 12)]]"
    by (simp add: demoTrace_def)
  ultimately show ?thesis
    using demo_artifact demo_run demo_throws by blast
qed

text \<open>
  C9, as the claim states it, fails: the page keeps no handle of the timer and cancels
  nothing when it is torn down. In the scenario, with the page unmounted before the
  delay has elapsed, the navigation to the analysis of \<open>rec-1\<close> is requested all the same.
\<close>

theorem navigation_after_teardown_counterexample:
  "\<not> mounted (unmount (mountedPage (snd (handleProcess demoApi 1000 (Some demoUser) demoSession))))
   \<and> navigated (unmount (mountedPage (snd (handleProcess demoApi 1000 (Some demoUser) demoSession))))
       = []
   \<and> navigated
        (elapse 2000
          (unmount (mountedPage (snd (handleProcess demoApi 1000 (Some demoUser) demoSession)))))
       = [(PageAnalysis, Some ''rec-1'')]"
  by (simp add: demo_run demoTrace_def mountedPage_def unmount_def elapse_def)

text \<open>
  C9, amended. In a run in which no call threw, one timer is set, with a delay of
  2000 ms, whose callback requests the navigation to the analysis page with the id now
  in \<open>recordingId\<close>. Nothing is requested before 2000 ms have elapsed. The timer is not
  cancelled by the teardown of the page: once the delay has elapsed the navigation is
  requested, whether the page is still mounted or not.
\<close>

theorem handleProcess_schedules_navigation:
  assumes "\<not> (videoBlob s = None \<and> videoFile s = None)"
    and "handleProcess api now (Some u) s = (s', effs)"
    and "\<forall>c\<in>set effs. throws api c = None"
  shows "\<exists>rid. recordingId s' = Some rid
     \<and> timers effs = [(2000, (PageAnalysis, Some rid))]
     \<and> (\<forall>t. navigated (elapse t (mountedPage effs))
            = (if t < 2000 then [] else [(PageAnalysis, Some rid)]))
     \<and> (\<forall>t. navigated (elapse t (unmount (mountedPage effs)))
            = (if t < 2000 then [] else [(PageAnalysis, Some rid)]))"
  using assms(1,2)
proof (cases rule: handleProcess_cases)
  case (failed calls err)
  note r = handleProcess_failed_run [OF failed(1) failed(3)]
  from r(2) have "last calls \<in> set effs" by (simp add: failed(3))
  with r(3) assms(3) show ?thesis by force
next
  case (succeeded s1)
  from tryBlock_success [OF succeeded(1)] obtain recording :: Recording where
    s1: "s1 = s\<lparr>uploading := True, recordingId := Some (rec_id recording),
              uploadComplete := True\<rparr>"
    and t: "timers effs = [(2000, (PageAnalysis, Some (rec_id recording)))]"
    by auto
  have "recordingId s' = Some (rec_id recording)"
    by (simp add: succeeded(2) s1)
  with t show ?thesis
    by (auto simp: mountedPage_def unmount_def elapse_def)
qed

theorem handleProcess_schedules_navigation_witness:
  "\<not> (videoBlob demoSession = None \<and> videoFile demoSession = None)
   \<and> handleProcess demoApi 1000 (Some demoUser) demoSession = (demoComplete, demoTrace)
   \<and> map (throws demoApi) demoTrace = [None, None, None, None, None, None, None]
   \<and> recordingId demoComplete = Some ''rec-1''
   \<and> timers demoTrace = [(2000, (PageAnalysis, Some ''rec-1''))]
   \<and> navigated (elapse 1999 (mountedPage demoTrace)) = []
   \<and> navigated (elapse 2000 (mountedPage demoTrace)) = [(PageAnalysis, Some ''rec-1'')]"
proof -
  from handleProcess_schedules_navigation [OF demo_artifact demo_run demo_no_throw]
  obtain rid where "recordingId demoComplete = Some rid"
    and "timers demoTrace = [(2000, (PageAnalysis, Some rid))]"
    and "\<forall>t. navigated (elapse t (mountedPage demoTrace))
            = (if t < 2000 then [] else [(PageAnalysis, Some rid)])"
    by blast
  then show ?thesis
    using demo_artifact demo_run demo_throws
    by (simp add: demoComplete_def)
qed

text \<open>
  C10. Without a user \<open>handleProcess\<close> returns at once: it calls nothing, shows nothing,
  sets no timer and leaves every cell of the session as it is.
\<close>

theorem handleProcess_without_user:
  "handleProcess api now None s = (s, [])"
  by (simp add: handleProcess_def)

theorem handleProcess_without_user_witness:
  "handleProcess demoApi 1000 None demoSession = (demoSession, [])
   \<and> handleProcess failingApi 1000 None demoComplete = (demoComplete, [])"
  using handleProcess_without_user [of demoApi 1000 demoSession]
    handleProcess_without_user [of failingApi 1000 demoComplete]
  by simp

end
